theory Spec2Isabelle
  imports Complex_Main
begin

section \<open>Power controller (src/core/power_management.py)\<close>

text \<open>
  Python floats are modelled as reals throughout: the comparisons and the arithmetic of the
  source are kept as written, rounding is not modelled. Methods that mutate \<open>self\<close> take
  the object and return the updated one. Fields of different classes that share a name in
  the source carry the class as a prefix (\<open>battery_voltage\<close>, \<open>supercap_voltage\<close>).
\<close>

datatype PowerState = STANDBY | LOW_POWER | ACTIVE | BURST | CHARGING

record PowerProfile =
  profile_voltage :: real
  profile_current :: real
  max_power :: real
  min_power :: real

record LithiumSulfurBattery =
  battery_capacity :: real
  battery_voltage :: real
  battery_current :: real

record Supercapacitor =
  supercap_capacity :: real
  supercap_voltage :: real
  in_burst_mode :: bool

record ThermalGenerator =
  thermal_efficiency :: real

record MotionGenerator =
  motion_efficiency :: real

text \<open>The dictionary built by \<open>monitor_power_consumption\<close>, one field per key.\<close>

record ConsumptionData =
  cd_timestamp :: real
  cd_state :: PowerState
  cd_battery_level :: real
  cd_temperature :: real
  cd_primary_power :: real
  cd_supercap_power :: real
  cd_thermal_power :: real
  cd_motion_power :: real

text \<open>
  \<open>power_profiles\<close> is a dictionary that \<open>__init__\<close> fills for all five states and that no
  method changes: a total function on \<open>PowerState\<close>.
\<close>

record PowerManagementSystem =
  current_state :: PowerState
  battery_level :: real
  temperature :: real
  power_profiles :: "PowerState \<Rightarrow> PowerProfile"
  primary_battery :: LithiumSulfurBattery
  supercapacitor :: Supercapacitor
  thermal_generator :: ThermalGenerator
  motion_generator :: MotionGenerator
  power_history :: "ConsumptionData list"

subsection \<open>The four power sources\<close>

definition LithiumSulfurBattery_init :: LithiumSulfurBattery where
  "LithiumSulfurBattery_init =
     \<lparr>battery_capacity = 1000, battery_voltage = 3.7, battery_current = 0.3\<rparr>"

definition battery_get_available_power :: "LithiumSulfurBattery \<Rightarrow> real" where
  "battery_get_available_power b = battery_voltage b * battery_current b"

definition battery_set_output :: "real \<Rightarrow> real \<Rightarrow> LithiumSulfurBattery \<Rightarrow> LithiumSulfurBattery" where
  "battery_set_output v c b = b\<lparr>battery_voltage := min v 3.7, battery_current := min c 1.0\<rparr>"

definition battery_get_current_power :: "LithiumSulfurBattery \<Rightarrow> real" where
  "battery_get_current_power b = battery_voltage b * battery_current b"

definition Supercapacitor_init :: Supercapacitor where
  "Supercapacitor_init =
     \<lparr>supercap_capacity = 100, supercap_voltage = 0.0, in_burst_mode = False\<rparr>"

definition enable_burst_mode :: "Supercapacitor \<Rightarrow> Supercapacitor" where
  "enable_burst_mode c = c\<lparr>in_burst_mode := True\<rparr>"

definition disable_burst_mode :: "Supercapacitor \<Rightarrow> Supercapacitor" where
  "disable_burst_mode c = c\<lparr>in_burst_mode := False\<rparr>"

text \<open>\<open>Supercapacitor.charge\<close> has the body \<open>pass\<close>: the power handed over is dropped.\<close>

definition supercap_charge :: "real \<Rightarrow> Supercapacitor \<Rightarrow> Supercapacitor" where
  "supercap_charge p c = c"

definition supercap_get_available_power :: "Supercapacitor \<Rightarrow> real" where
  "supercap_get_available_power c =
     (if supercap_voltage c > 0 then 0.5 * supercap_capacity c * (supercap_voltage c)\<^sup>2 else 0)"

definition supercap_get_current_power :: "Supercapacitor \<Rightarrow> real" where
  "supercap_get_current_power c =
     (if in_burst_mode c then supercap_get_available_power c else 0)"

definition ThermalGenerator_init :: ThermalGenerator where
  "ThermalGenerator_init = \<lparr>thermal_efficiency = 0.05\<rparr>"

definition thermal_get_current_power :: "ThermalGenerator \<Rightarrow> real" where
  "thermal_get_current_power g = 0.1 * thermal_efficiency g"

definition MotionGenerator_init :: MotionGenerator where
  "MotionGenerator_init = \<lparr>motion_efficiency = 0.1\<rparr>"

definition motion_get_current_power :: "MotionGenerator \<Rightarrow> real" where
  "motion_get_current_power g = 0.05 * motion_efficiency g"

subsection \<open>PowerManagementSystem\<close>

fun default_power_profiles :: "PowerState \<Rightarrow> PowerProfile" where
  "default_power_profiles STANDBY =
     \<lparr>profile_voltage = 3.3, profile_current = 0.01, max_power = 0.033, min_power = 0.01\<rparr>"
| "default_power_profiles LOW_POWER =
     \<lparr>profile_voltage = 3.3, profile_current = 0.1, max_power = 0.33, min_power = 0.1\<rparr>"
| "default_power_profiles ACTIVE =
     \<lparr>profile_voltage = 3.3, profile_current = 0.5, max_power = 1.65, min_power = 0.5\<rparr>"
| "default_power_profiles BURST =
     \<lparr>profile_voltage = 3.7, profile_current = 1.0, max_power = 3.7, min_power = 1.65\<rparr>"
| "default_power_profiles CHARGING =
     \<lparr>profile_voltage = 5.0, profile_current = 1.0, max_power = 5.0, min_power = 3.7\<rparr>"

definition PowerManagementSystem_init :: PowerManagementSystem where
  "PowerManagementSystem_init =
     \<lparr>current_state = STANDBY,
      battery_level = 100.0,
      temperature = 25.0,
      power_profiles = default_power_profiles,
      primary_battery = LithiumSulfurBattery_init,
      supercapacitor = Supercapacitor_init,
      thermal_generator = ThermalGenerator_init,
      motion_generator = MotionGenerator_init,
      power_history = []\<rparr>"

text \<open>The local dictionary \<open>valid_transitions\<close> of \<open>_validate_state_transition\<close>.\<close>

definition valid_transitions :: "PowerState \<rightharpoonup> PowerState list" where
  "valid_transitions = map_of
     [(STANDBY, [ACTIVE, LOW_POWER]),
      (LOW_POWER, [STANDBY, ACTIVE]),
      (ACTIVE, [STANDBY, LOW_POWER, BURST]),
      (BURST, [ACTIVE, STANDBY]),
      (CHARGING, [STANDBY, LOW_POWER])]"

definition validate_state_transition :: "PowerManagementSystem \<Rightarrow> PowerState \<Rightarrow> bool" where
  "validate_state_transition s new_state =
     (case valid_transitions (current_state s) of
        Some targets \<Rightarrow> new_state \<in> set targets
      | None \<Rightarrow> False)"

definition total_available_power :: "PowerManagementSystem \<Rightarrow> real" where
  "total_available_power s =
     battery_get_available_power (primary_battery s)
     + supercap_get_available_power (supercapacitor s)
     + thermal_get_current_power (thermal_generator s)
     + motion_get_current_power (motion_generator s)"

definition check_power_availability :: "PowerManagementSystem \<Rightarrow> real \<Rightarrow> bool" where
  "check_power_availability s required_power = (total_available_power s \<ge> required_power)"

definition apply_power_profile :: "PowerState \<Rightarrow> PowerManagementSystem \<Rightarrow> PowerManagementSystem" where
  "apply_power_profile state s =
     (let profile = power_profiles s state;
          s1 = s\<lparr>primary_battery :=
                   battery_set_output (profile_voltage profile) (profile_current profile)
                     (primary_battery s)\<rparr>
      in if state = BURST
         then s1\<lparr>supercapacitor := enable_burst_mode (supercapacitor s1)\<rparr>
         else s1\<lparr>supercapacitor := disable_burst_mode (supercapacitor s1)\<rparr>)"

text \<open>
  \<open>request_power_state\<close> returns a bool: \<open>False\<close> at either early return (the transition
  is not in the table; the sources do not cover \<open>min_power\<close>), \<open>True\<close> after the state and
  the profile are set.
\<close>

definition request_power_state ::
  "PowerState \<Rightarrow> PowerManagementSystem \<Rightarrow> bool \<times> PowerManagementSystem" where
  "request_power_state requested_state s =
     (if \<not> validate_state_transition s requested_state then (False, s)
      else let required_power = min_power (power_profiles s requested_state)
           in if \<not> check_power_availability s required_power then (False, s)
              else (True, apply_power_profile requested_state
                            (s\<lparr>current_state := requested_state\<rparr>)))"

text \<open>\<open>time.time()\<close> is the argument \<open>now\<close>.\<close>

definition monitor_power_consumption ::
  "real \<Rightarrow> PowerManagementSystem \<Rightarrow> ConsumptionData \<times> PowerManagementSystem" where
  "monitor_power_consumption now s =
     (let consumption_data =
            \<lparr>cd_timestamp = now,
             cd_state = current_state s,
             cd_battery_level = battery_level s,
             cd_temperature = temperature s,
             cd_primary_power = battery_get_current_power (primary_battery s),
             cd_supercap_power = supercap_get_current_power (supercapacitor s),
             cd_thermal_power = thermal_get_current_power (thermal_generator s),
             cd_motion_power = motion_get_current_power (motion_generator s)\<rparr>
      in (consumption_data, s\<lparr>power_history := power_history s @ [consumption_data]\<rparr>))"

definition charge_supercapacitor :: "PowerManagementSystem \<Rightarrow> PowerManagementSystem" where
  "charge_supercapacitor s =
     (if battery_level s > 50.0
      then s\<lparr>supercapacitor :=
               supercap_charge (battery_get_available_power (primary_battery s) * 0.2)
                 (supercapacitor s)\<rparr>
      else s)"

section \<open>Battery controller (src/core/power_management/battery_controller.py)\<close>

text \<open>
  An exception is its message. \<open>_calculate_battery_level\<close> wraps its arithmetic in
  \<open>try\<close>/\<open>except\<close> and re-raises as \<open>PowerManagementError\<close>; the only operation of the body
  that can raise on a float is the division.
\<close>

type_synonym exn = string

definition calculate_battery_level :: "real \<Rightarrow> exn + real" where
  "calculate_battery_level voltage =
     (let min_voltage = 3.2; max_voltage = 4.2
      in if max_voltage - min_voltage = (0::real)
         then Inl ''Failed to calculate battery level: float division by zero''
         else let level = ((voltage - min_voltage) / (max_voltage - min_voltage)) * 100
              in Inr (max (min level 100.0) 0.0))"

section \<open>Status monitor (src/core/system_interface/status_monitor.py)\<close>

datatype SystemComponent =
  Comp_POWER | Comp_PROJECTION | Comp_THERMAL | Comp_MOTION | Comp_INTERFACE | Comp_SAFETY

datatype AlertLevel = INFO | WARNING | ERROR | CRITICAL

text \<open>
  The f-strings that build alert messages, one constructor per format; a float that the
  source interpolates is an argument.
\<close>

datatype AlertMessage =
    Critical_health SystemComponent real
  | Low_health SystemComponent real
  | Stale_status SystemComponent
  | Emergency_shutdown_at string real
  | Message string

record SystemAlert =
  alert_component :: SystemComponent
  alert_level :: AlertLevel
  alert_message :: AlertMessage
  alert_timestamp :: real
  alert_data :: "(string \<rightharpoonup> string) option"

record ComponentStatus =
  cs_component :: SystemComponent
  cs_status :: string
  health :: real
  last_update :: real
  metrics :: "string \<rightharpoonup> real"
  alerts :: "SystemAlert list"

text \<open>
  A registered callback is known by its name. \<open>callback_log\<close> is the trace of the calls
  \<open>callback(alert)\<close> that \<open>_record_alert\<close> makes; what a callback raises is caught there, and
  callbacks are taken not to touch the monitor. \<open>datetime.now()\<close> is the argument \<open>now\<close>.
\<close>

record StatusMonitor =
  component_status :: "SystemComponent \<rightharpoonup> ComponentStatus"
  alert_history :: "SystemAlert list"
  alert_callbacks :: "AlertLevel \<Rightarrow> string list"
  callback_log :: "(string \<times> SystemAlert) list"
  is_monitoring :: bool
  status_update_interval :: real
  alert_retention_period :: real

definition all_components :: "SystemComponent list" where
  "all_components =
     [Comp_POWER, Comp_PROJECTION, Comp_THERMAL, Comp_MOTION, Comp_INTERFACE, Comp_SAFETY]"

definition StatusMonitor_init :: StatusMonitor where
  "StatusMonitor_init =
     \<lparr>component_status = Map.empty,
      alert_history = [],
      alert_callbacks = (\<lambda>level. []),
      callback_log = [],
      is_monitoring = False,
      status_update_interval = 1.0,
      alert_retention_period = 3600\<rparr>"

definition register_alert_callback :: "AlertLevel \<Rightarrow> string \<Rightarrow> StatusMonitor \<Rightarrow> StatusMonitor" where
  "register_alert_callback level callback m =
     m\<lparr>alert_callbacks := (alert_callbacks m)(level := alert_callbacks m level @ [callback])\<rparr>"

text \<open>\<open>initialize\<close>: the two background tasks it starts are not part of the model.\<close>

definition status_monitor_initialize :: "real \<Rightarrow> StatusMonitor \<Rightarrow> StatusMonitor" where
  "status_monitor_initialize now m =
     m\<lparr>component_status :=
          foldl (\<lambda>d component. d(component \<mapsto>
                   \<lparr>cs_component = component, cs_status = ''initializing'', health = 100.0,
                    last_update = now, metrics = Map.empty, alerts = []\<rparr>))
                (component_status m) all_components,
       is_monitoring := True\<rparr>"

text \<open>
  \<open>_record_alert\<close>. A component that is not a key of \<open>_component_status\<close> raises
  \<open>KeyError\<close> at the first append; the handler logs it and nothing is recorded.
\<close>

definition record_alert ::
  "SystemComponent \<Rightarrow> AlertLevel \<Rightarrow> AlertMessage \<Rightarrow> (string \<rightharpoonup> string) option \<Rightarrow> real
     \<Rightarrow> StatusMonitor \<Rightarrow> StatusMonitor" where
  "record_alert component level message data now m =
     (case component_status m component of
        None \<Rightarrow> m
      | Some status \<Rightarrow>
          let alert = \<lparr>alert_component = component, alert_level = level,
                       alert_message = message, alert_timestamp = now, alert_data = data\<rparr>
          in m\<lparr>component_status :=
                  (component_status m)(component \<mapsto> status\<lparr>alerts := alerts status @ [alert]\<rparr>),
                alert_history := alert_history m @ [alert],
                callback_log :=
                  callback_log m @ map (\<lambda>callback. (callback, alert)) (alert_callbacks m level)\<rparr>)"

text \<open>
  The body of the loop of \<open>_analyze_system_health\<close> for one dictionary item. \<open>status\<close> is
  the object held by the dictionary: \<open>_record_alert\<close> appends to its alert list and leaves
  \<open>health\<close> and \<open>last_update\<close> alone.
\<close>

definition analyze_component :: "real \<Rightarrow> SystemComponent \<Rightarrow> StatusMonitor \<Rightarrow> StatusMonitor" where
  "analyze_component now component m =
     (case component_status m component of
        None \<Rightarrow> m
      | Some status \<Rightarrow>
          let m1 = (if health status < 20.0
                    then record_alert component CRITICAL
                           (Critical_health component (health status)) None now m
                    else if health status < 50.0
                    then record_alert component WARNING
                           (Low_health component (health status)) None now m
                    else m);
              time_since_update = now - last_update status
          in if time_since_update > status_update_interval m1 * 3
             then record_alert component ERROR (Stale_status component) None now m1
             else m1)"

text \<open>
  \<open>_analyze_system_health\<close> walks the dictionary in insertion order; \<open>initialize\<close> is the
  only place that inserts keys, in the order of the enum.
\<close>

definition analyze_system_health :: "real \<Rightarrow> StatusMonitor \<Rightarrow> StatusMonitor" where
  "analyze_system_health now m =
     foldl (\<lambda>m' component. analyze_component now component m') m
       (filter (\<lambda>component. component_status m component \<noteq> None) all_components)"

definition status_monitor_cleanup :: "StatusMonitor \<Rightarrow> StatusMonitor" where
  "status_monitor_cleanup m = m\<lparr>is_monitoring := False\<rparr>"

section \<open>Safety manager (src/core/system_interface/safety_manager.py)\<close>

datatype SafetyCondition =
  Cond_TEMPERATURE | Cond_POWER | Cond_PROJECTION | Cond_MECHANICAL | Cond_ENVIRONMENT

datatype SafetyAction = Act_NOTIFY | Act_THROTTLE | Act_SHUTDOWN | Act_EMERGENCY_SHUTDOWN

fun condition_value :: "SafetyCondition \<Rightarrow> string" where
  "condition_value Cond_TEMPERATURE = ''temperature''"
| "condition_value Cond_POWER = ''power''"
| "condition_value Cond_PROJECTION = ''projection''"
| "condition_value Cond_MECHANICAL = ''mechanical''"
| "condition_value Cond_ENVIRONMENT = ''environment''"

record SafetyThreshold =
  th_condition :: SafetyCondition
  warning_level :: real
  critical_level :: real
  th_action :: SafetyAction
  recovery_level :: real


datatype EventDescription =
    Critical_level SafetyCondition real
  | Warning_level SafetyCondition real
  | Recovered_to_safe_level SafetyCondition

record SafetyEvent =
  ev_condition :: SafetyCondition
  ev_level :: real
  action_taken :: SafetyAction
  ev_timestamp :: real
  description :: EventDescription

text \<open>
  \<open>_thresholds\<close> has all five keys from \<open>__init__\<close> on and is never changed: a total
  function. A registered handler is known by its name; \<open>action_log\<close> is the trace of the
  calls of \<open>_execute_safety_action\<close> (the line it logs), \<open>handler_log\<close> the trace of the
  handler calls it makes. The manager keeps a reference to the status monitor.
\<close>

record SafetyManager =
  sf_status_monitor :: StatusMonitor
  sf_is_monitoring :: bool
  safety_check_interval :: real
  thresholds :: "SafetyCondition \<Rightarrow> SafetyThreshold"
  current_conditions :: "SafetyCondition \<rightharpoonup> real"
  active_warnings :: "SafetyCondition \<rightharpoonup> real"
  safety_events :: "SafetyEvent list"
  event_handlers :: "SafetyAction \<Rightarrow> string list"
  action_log :: "(SafetyAction \<times> SafetyCondition \<times> real) list"
  handler_log :: "(string \<times> SafetyCondition \<times> real) list"

definition all_conditions :: "SafetyCondition list" where
  "all_conditions =
     [Cond_TEMPERATURE, Cond_POWER, Cond_PROJECTION, Cond_MECHANICAL, Cond_ENVIRONMENT]"

fun default_thresholds :: "SafetyCondition \<Rightarrow> SafetyThreshold" where
  "default_thresholds Cond_TEMPERATURE =
     \<lparr>th_condition = Cond_TEMPERATURE, warning_level = 40.0, critical_level = 50.0,
      th_action = Act_SHUTDOWN, recovery_level = 35.0\<rparr>"
| "default_thresholds Cond_POWER =
     \<lparr>th_condition = Cond_POWER, warning_level = 15.0, critical_level = 5.0,
      th_action = Act_SHUTDOWN, recovery_level = 20.0\<rparr>"
| "default_thresholds Cond_PROJECTION =
     \<lparr>th_condition = Cond_PROJECTION, warning_level = 80.0, critical_level = 95.0,
      th_action = Act_THROTTLE, recovery_level = 70.0\<rparr>"
| "default_thresholds Cond_MECHANICAL =
     \<lparr>th_condition = Cond_MECHANICAL, warning_level = 85.0, critical_level = 95.0,
      th_action = Act_EMERGENCY_SHUTDOWN, recovery_level = 75.0\<rparr>"
| "default_thresholds Cond_ENVIRONMENT =
     \<lparr>th_condition = Cond_ENVIRONMENT, warning_level = 85.0, critical_level = 95.0,
      th_action = Act_NOTIFY, recovery_level = 75.0\<rparr>"

definition SafetyManager_init :: "StatusMonitor \<Rightarrow> SafetyManager" where
  "SafetyManager_init status_monitor =
     \<lparr>sf_status_monitor =
        register_alert_callback CRITICAL ''SafetyManager._handle_system_critical''
          (register_alert_callback WARNING ''SafetyManager._handle_system_warning''
             status_monitor),
      sf_is_monitoring = False,
      safety_check_interval = 0.1,
      thresholds = default_thresholds,
      current_conditions = Map.empty,
      active_warnings = Map.empty,
      safety_events = [],
      event_handlers = (\<lambda>action. []),
      action_log = [],
      handler_log = []\<rparr>"

text \<open>\<open>initialize\<close>: every condition starts at 0.0; the monitoring task is not modelled.\<close>

definition safety_manager_initialize :: "SafetyManager \<Rightarrow> SafetyManager" where
  "safety_manager_initialize s =
     s\<lparr>current_conditions :=
          foldl (\<lambda>d condition. d(condition \<mapsto> 0.0)) (current_conditions s) all_conditions,
       sf_is_monitoring := True\<rparr>"

definition register_safety_handler :: "SafetyAction \<Rightarrow> string \<Rightarrow> SafetyManager \<Rightarrow> SafetyManager" where
  "register_safety_handler action handler s =
     s\<lparr>event_handlers := (event_handlers s)(action := event_handlers s action @ [handler])\<rparr>"

text \<open>
  \<open>_execute_safety_action\<close>: every handler registered for the action is called (what it
  raises is caught); the built-in \<open>_perform_...\<close> methods only log.
\<close>

definition execute_safety_action ::
  "SafetyAction \<Rightarrow> SafetyCondition \<Rightarrow> real \<Rightarrow> SafetyManager \<Rightarrow> SafetyManager" where
  "execute_safety_action action condition v s =
     s\<lparr>action_log := action_log s @ [(action, condition, v)],
       handler_log :=
         handler_log s @ map (\<lambda>handler. (handler, condition, v)) (event_handlers s action)\<rparr>"

text \<open>
  The three handlers end with \<open>await self._status_monitor._record_alert(...)\<close>: the alert
  is recorded, then awaiting the \<open>None\<close> it returns raises \<open>TypeError\<close>, which the
  enclosing \<open>except\<close> logs. Nothing follows that statement.
\<close>

definition handle_critical_condition ::
  "SafetyCondition \<Rightarrow> real \<Rightarrow> real \<Rightarrow> SafetyManager \<Rightarrow> SafetyManager" where
  "handle_critical_condition condition v now s =
     (let threshold = thresholds s condition;
          event = \<lparr>ev_condition = condition, ev_level = v, action_taken = th_action threshold,
                   ev_timestamp = now, description = Critical_level condition v\<rparr>;
          s1 = s\<lparr>safety_events := safety_events s @ [event]\<rparr>;
          s2 = execute_safety_action (th_action threshold) condition v s1
      in s2\<lparr>sf_status_monitor :=
              record_alert Comp_SAFETY CRITICAL
                (Message (''Critical safety condition: '' @ condition_value condition))
                None now (sf_status_monitor s2)\<rparr>)"

definition handle_warning_condition ::
  "SafetyCondition \<Rightarrow> real \<Rightarrow> real \<Rightarrow> SafetyManager \<Rightarrow> SafetyManager" where
  "handle_warning_condition condition v now s =
     (if active_warnings s condition = None
      then let s1 = s\<lparr>active_warnings := (active_warnings s)(condition \<mapsto> now)\<rparr>;
               event = \<lparr>ev_condition = condition, ev_level = v, action_taken = Act_NOTIFY,
                        ev_timestamp = now, description = Warning_level condition v\<rparr>;
               s2 = s1\<lparr>safety_events := safety_events s1 @ [event]\<rparr>
           in s2\<lparr>sf_status_monitor :=
                   record_alert Comp_SAFETY WARNING
                     (Message (''Safety warning condition: '' @ condition_value condition))
                     None now (sf_status_monitor s2)\<rparr>
      else s)"

text \<open>
  \<open>_handle_condition_recovery\<close> deletes the warning first and reads
  \<open>_current_conditions[condition]\<close> for the event afterwards: a missing key raises there,
  after the deletion.
\<close>

definition handle_condition_recovery :: "SafetyCondition \<Rightarrow> real \<Rightarrow> SafetyManager \<Rightarrow> SafetyManager" where
  "handle_condition_recovery condition now s =
     (if active_warnings s condition \<noteq> None
      then let s1 = s\<lparr>active_warnings := (active_warnings s)(condition := None)\<rparr>
           in (case current_conditions s1 condition of
                 None \<Rightarrow> s1
               | Some level \<Rightarrow>
                   let event = \<lparr>ev_condition = condition, ev_level = level,
                                action_taken = Act_NOTIFY, ev_timestamp = now,
                                description = Recovered_to_safe_level condition\<rparr>;
                       s2 = s1\<lparr>safety_events := safety_events s1 @ [event]\<rparr>
                   in s2\<lparr>sf_status_monitor :=
                           record_alert Comp_SAFETY INFO
                             (Message (''Safety condition recovered: '' @ condition_value condition))
                             None now (sf_status_monitor s2)\<rparr>)
      else s)"

definition check_safety_threshold :: "SafetyCondition \<Rightarrow> real \<Rightarrow> SafetyManager \<Rightarrow> SafetyManager" where
  "check_safety_threshold condition now s =
     (case current_conditions s condition of
        None \<Rightarrow> s
      | Some current_value \<Rightarrow>
          let threshold = thresholds s condition
          in if current_value \<ge> critical_level threshold
             then handle_critical_condition condition current_value now s
             else if current_value \<ge> warning_level threshold
             then handle_warning_condition condition current_value now s
             else if active_warnings s condition \<noteq> None
                     \<and> current_value \<le> recovery_level threshold
             then handle_condition_recovery condition now s
             else s)"

text \<open>
  \<open>_process_safety_actions\<close> walks \<open>_current_conditions\<close>, whose keys are inserted in the
  order of the enum by \<open>initialize\<close> and by \<open>_update_safety_conditions\<close>.
\<close>

definition process_condition :: "SafetyCondition \<Rightarrow> SafetyManager \<Rightarrow> SafetyManager" where
  "process_condition condition s =
     (case current_conditions s condition of
        None \<Rightarrow> s
      | Some v \<Rightarrow>
          let threshold = thresholds s condition
          in if v \<ge> critical_level threshold
             then execute_safety_action (th_action threshold) condition v s
             else s)"

definition process_safety_actions :: "SafetyManager \<Rightarrow> SafetyManager" where
  "process_safety_actions s = foldl (\<lambda>s' condition. process_condition condition s') s all_conditions"

text \<open>
  One pass of \<open>_safety_monitor_loop\<close> after \<open>_update_safety_conditions\<close> has stored the
  values of the tick in \<open>_current_conditions\<close>: the five threshold checks in the order of
  the enum, then \<open>_process_safety_actions\<close>.
\<close>

definition check_all_thresholds :: "real \<Rightarrow> SafetyManager \<Rightarrow> SafetyManager" where
  "check_all_thresholds now s =
     foldl (\<lambda>s' condition. check_safety_threshold condition now s') s all_conditions"

definition safety_monitor_pass :: "real \<Rightarrow> SafetyManager \<Rightarrow> SafetyManager" where
  "safety_monitor_pass now s = process_safety_actions (check_all_thresholds now s)"

text \<open>
  \<open>_safety_monitor_loop\<close>, run for a given list of ticks. A tick is the time and the
  values that \<open>_update_safety_conditions\<close> stores in \<open>_current_conditions\<close> at its start.
\<close>

fun safety_monitor_loop ::
  "(real \<times> (SafetyCondition \<rightharpoonup> real)) list \<Rightarrow> SafetyManager \<Rightarrow> SafetyManager" where
  "safety_monitor_loop [] s = s"
| "safety_monitor_loop ((now, conditions) # ticks) s =
     safety_monitor_loop ticks
       (safety_monitor_pass now (s\<lparr>current_conditions := current_conditions s ++ conditions\<rparr>))"

text \<open>
  What the manager has recorded about one condition: its events, the executions of an
  action for it, and its entry in \<open>_active_warnings\<close>.
\<close>

definition events_of :: "SafetyCondition \<Rightarrow> SafetyManager \<Rightarrow> SafetyEvent list" where
  "events_of c s = filter (\<lambda>e. ev_condition e = c) (safety_events s)"

definition actions_of ::
  "SafetyCondition \<Rightarrow> SafetyManager \<Rightarrow> (SafetyAction \<times> SafetyCondition \<times> real) list" where
  "actions_of c s = filter (\<lambda>x. fst (snd x) = c) (action_log s)"

definition safety_manager_cleanup :: "SafetyManager \<Rightarrow> SafetyManager" where
  "safety_manager_cleanup s = s\<lparr>sf_is_monitoring := False\<rparr>"

section \<open>Main controller (src/core/system_interface/main_controller.py)\<close>

datatype SystemState =
  Sys_INITIALIZING | Sys_READY | Sys_PROJECTING | Sys_INTERACTIVE | Sys_LOW_POWER
  | Sys_ERROR | Sys_SHUTDOWN

text \<open>
  The controller calls into projection, power and interaction objects that end in hardware
  drivers. Whether such a call raises is given from outside: \<open>raises\<close> maps the name of a
  call to the message of the exception it raises, or to \<open>None\<close> when it returns.
\<close>

type_synonym outcomes = "string \<Rightarrow> exn option"

fun first_raise :: "outcomes \<Rightarrow> string list \<Rightarrow> exn option" where
  "first_raise raises [] = None"
| "first_raise raises (call # calls) =
     (case raises call of Some e \<Rightarrow> Some e | None \<Rightarrow> first_raise raises calls)"

text \<open>
  Every attribute of a \<open>MotionDriver\<close> (src/hardware/drivers/motion_driver.py): the
  methods of the class, which has no base class, and the attributes \<open>__init__\<close> sets.
\<close>

definition MotionDriver_attributes :: "string list" where
  "MotionDriver_attributes =
     [''__init__'', ''initialize'', ''_perform_self_test'', ''_configure_ranges'',
      ''_configure_sampling'', ''start_monitoring'', ''stop_monitoring'',
      ''measure_acceleration'', ''measure_angular_velocity'', ''get_motion_status'',
      ''_write_register'', ''_read_register'', ''shutdown'',
      ''logger'', ''_i2c'', ''_CONTROL_REG'', ''_ACCEL_X_REG'', ''_ACCEL_Y_REG'',
      ''_ACCEL_Z_REG'', ''_GYRO_X_REG'', ''_GYRO_Y_REG'', ''_GYRO_Z_REG'', ''_STATUS_REG'',
      ''_initialized'', ''_monitoring_active'', ''_accel_range'', ''_gyro_range'',
      ''_sample_rate'', ''_MIN_ACCEL'', ''_MAX_ACCEL'', ''_MIN_GYRO'', ''_MAX_GYRO'']"

text \<open>
  \<open>GestureRecognizer.cleanup\<close> (src/ui/hologram_ui/gesture_recognition.py) awaits
  \<open>self._motion_driver.stop_monitoring()\<close> and then \<open>self._motion_driver.cleanup()\<close>.
  Looking up an attribute the driver does not have raises \<open>AttributeError\<close>; whatever is
  raised in the body is caught and re-raised as \<open>InteractionError("Cleanup failed", ...)\<close>.
  The result is the exception that leaves the method, if any.
\<close>

definition gesture_recognizer_cleanup :: "outcomes \<Rightarrow> exn option" where
  "gesture_recognizer_cleanup raises =
     (case raises ''motion_driver.stop_monitoring'' of
        Some e \<Rightarrow> Some ''Cleanup failed''
      | None \<Rightarrow>
          if ''cleanup'' \<in> set MotionDriver_attributes
          then (case raises ''motion_driver.cleanup'' of
                  Some e \<Rightarrow> Some ''Cleanup failed''
                | None \<Rightarrow> None)
          else Some ''Cleanup failed'')"

text \<open>
  Of \<open>system_status\<close> only \<open>last_error\<close> and \<open>errors\<close> are written by the methods below.
  The status monitor of the controller is the one its safety manager refers to.
\<close>

record MainController =
  state :: SystemState
  safety_manager :: SafetyManager
  last_error :: "string option"
  errors :: "(string \<rightharpoonup> string) option"

definition MainController_init :: MainController where
  "MainController_init =
     \<lparr>state = Sys_INITIALIZING,
      safety_manager =
        register_safety_handler Act_THROTTLE ''MainController._handle_system_throttling''
          (register_safety_handler Act_SHUTDOWN ''MainController._handle_controlled_shutdown''
             (register_safety_handler Act_EMERGENCY_SHUTDOWN
                ''MainController._handle_emergency_shutdown''
                (SafetyManager_init StatusMonitor_init))),
      last_error = None,
      errors = None\<rparr>"

definition controller_record_alert ::
  "SystemComponent \<Rightarrow> AlertLevel \<Rightarrow> AlertMessage \<Rightarrow> real \<Rightarrow> MainController \<Rightarrow> MainController" where
  "controller_record_alert component level message now s =
     s\<lparr>safety_manager := (safety_manager s)
          \<lparr>sf_status_monitor :=
             record_alert component level message None now
               (sf_status_monitor (safety_manager s))\<rparr>\<rparr>"

text \<open>
  \<open>_handle_system_error\<close>: after the alert is recorded, awaiting the \<open>None\<close> that
  \<open>_record_alert\<close> returns raises; the \<open>except\<close> of the handler logs it.
\<close>

definition handle_system_error :: "exn \<Rightarrow> string \<Rightarrow> real \<Rightarrow> MainController \<Rightarrow> MainController" where
  "handle_system_error error component now s =
     (let s1 = s\<lparr>state := Sys_ERROR\<rparr>;
          error_message = component @ '' error: '' @ error;
          s2 = s1\<lparr>last_error := Some error_message\<rparr>;
          s3 = s2\<lparr>errors := Some ((case errors s2 of None \<Rightarrow> Map.empty | Some d \<Rightarrow> d)
                                      (component \<mapsto> error))\<rparr>
      in controller_record_alert Comp_INTERFACE ERROR (Message error_message) now s3)"

definition stop_hologram_projection ::
  "outcomes \<Rightarrow> real \<Rightarrow> MainController \<Rightarrow> bool \<times> MainController" where
  "stop_hologram_projection raises now s =
     (case first_raise raises
             [''laser_controller.stop_emission'', ''mems_controller.stop_scanning'',
              ''meta_surface_controller.cleanup''] of
        None \<Rightarrow> (True, s\<lparr>state := Sys_READY\<rparr>)
      | Some e \<Rightarrow> (False, handle_system_error e ''projection_stop'' now s))"

text \<open>
  Every attribute of a \<open>BatteryController\<close> and of a \<open>SupercapacitorController\<close>
  (src/core/power_management/battery_controller.py, supercapacitor_controller.py): the
  methods of the class, which has no base class, and the attributes its methods set.
\<close>

definition BatteryController_attributes :: "string list" where
  "BatteryController_attributes =
     [''__init__'', ''initialize'', ''_calibrate_battery'', ''_monitor_battery_status'',
      ''_monitor_temperature'', ''_handle_thermal_event'', ''_calculate_battery_level'',
      ''_calculate_battery_health'', ''_estimate_remaining_time'', ''_record_power_usage'',
      ''get_status'', ''get_power_profile'', ''_update_power_profile'',
      ''_check_critical_conditions'', ''_handle_low_power'', ''_handle_critical_power'',
      ''_emergency_power_shutdown'', ''_emergency_thermal_shutdown'',
      ''_reduce_power_consumption'', ''cleanup'',
      ''logger'', ''_driver'', ''_status_monitor'', ''_current_status'', ''_is_initialized'',
      ''_power_profile'', ''_power_history'', ''_last_update'']"

definition SupercapacitorController_attributes :: "string list" where
  "SupercapacitorController_attributes =
     [''__init__'', ''initialize'', ''_verify_supercapacitor_health'',
      ''_test_discharge_capability'', ''_monitor_status'', ''_calculate_charge_level'',
      ''_check_critical_conditions'', ''charge'', ''discharge'', ''_handle_thermal_event'',
      ''_emergency_discharge'', ''_handle_undervoltage'', ''_perform_maintenance'',
      ''_perform_conditioning_cycle'', ''_voltage_from_charge_level'', ''get_status'',
      ''cleanup'',
      ''logger'', ''_driver'', ''_battery_controller'', ''_current_status'',
      ''_is_initialized'', ''_config'', ''_charge_cycles'', ''_last_maintenance'']"

text \<open>
  \<open>_handle_emergency_shutdown\<close> catches everything raised in its body. After the laser
  and the MEMS controller it calls \<open>self.battery_controller.emergency_shutdown()\<close> and
  \<open>self.supercap_controller.emergency_stop()\<close>; looking up an attribute the object does
  not have raises \<open>AttributeError\<close>, which ends the body before the alert is recorded.
\<close>

definition handle_emergency_shutdown ::
  "outcomes \<Rightarrow> SafetyCondition \<Rightarrow> real \<Rightarrow> real \<Rightarrow> MainController \<Rightarrow> MainController" where
  "handle_emergency_shutdown raises condition v now s =
     (let s1 = s\<lparr>state := Sys_SHUTDOWN\<rparr>
      in case first_raise raises
                [''laser_controller.emergency_shutdown'', ''mems_controller.emergency_stop''] of
           Some e \<Rightarrow> s1
         | None \<Rightarrow>
             if ''emergency_shutdown'' \<notin> set BatteryController_attributes then s1
             else (case raises ''battery_controller.emergency_shutdown'' of
                     Some e \<Rightarrow> s1
                   | None \<Rightarrow>
                       if ''emergency_stop'' \<notin> set SupercapacitorController_attributes then s1
                       else (case raises ''supercap_controller.emergency_stop'' of
                               Some e \<Rightarrow> s1
                             | None \<Rightarrow>
                                 controller_record_alert Comp_INTERFACE CRITICAL
                                   (Emergency_shutdown_at (condition_value condition) v)
                                   now s1)))"

text \<open>
  \<open>shutdown\<close>. The state is set first, so the test for an active projection reads
  \<open>SHUTDOWN\<close>. \<open>_shutdown_power_systems\<close> catches what its calls raise and changes nothing
  of the controller. The first exception in the \<open>try\<close> body leads to the emergency handler
  and to \<open>return False\<close>.
\<close>

definition shutdown :: "outcomes \<Rightarrow> real \<Rightarrow> MainController \<Rightarrow> bool \<times> MainController" where
  "shutdown raises now s =
     (let s1 = s\<lparr>state := Sys_SHUTDOWN\<rparr>;
          s2 = (if state s1 \<in> set [Sys_PROJECTING, Sys_INTERACTIVE]
                then snd (stop_hologram_projection raises now s1)
                else s1)
      in case (case gesture_recognizer_cleanup raises of
                 Some e \<Rightarrow> Some e
               | None \<Rightarrow>
                   first_raise raises
                     [''voice_processor.cleanup'', ''interaction_handler.cleanup'',
                      ''laser_controller.cleanup'', ''mems_controller.cleanup'',
                      ''meta_surface_controller.cleanup'']) of
           None \<Rightarrow>
             (True,
              s2\<lparr>safety_manager :=
                   safety_manager_cleanup
                     ((safety_manager s2)
                        \<lparr>sf_status_monitor :=
                           status_monitor_cleanup (sf_status_monitor (safety_manager s2))\<rparr>)\<rparr>)
         | Some e \<Rightarrow> (False, handle_emergency_shutdown raises Cond_POWER 0.0 now s2))"

section \<open>Properties of the power controller\<close>

lemma valid_transitions_simps:
  "valid_transitions STANDBY = Some [ACTIVE, LOW_POWER]"
  "valid_transitions LOW_POWER = Some [STANDBY, ACTIVE]"
  "valid_transitions ACTIVE = Some [STANDBY, LOW_POWER, BURST]"
  "valid_transitions BURST = Some [ACTIVE, STANDBY]"
  "valid_transitions CHARGING = Some [STANDBY, LOW_POWER]"
  by (simp_all add: valid_transitions_def)

lemmas power_eval =
  total_available_power_def battery_get_available_power_def supercap_get_available_power_def
  thermal_get_current_power_def motion_get_current_power_def battery_set_output_def
  enable_burst_mode_def disable_burst_mode_def apply_power_profile_def
  request_power_state_def validate_state_transition_def check_power_availability_def
  PowerManagementSystem_init_def LithiumSulfurBattery_init_def Supercapacitor_init_def
  ThermalGenerator_init_def MotionGenerator_init_def valid_transitions_simps Let_def

text \<open>
  C1. A target that is not in the table entry of the current state is refused: the
  transition check fails, \<open>request_power_state\<close> returns \<open>False\<close> and the whole system
  (state, battery output, burst flag) is as before. Whenever \<open>request_power_state\<close>
  returns \<open>False\<close>, for either reason, the system is unchanged.
\<close>

theorem request_power_state_rejects_non_adjacent:
  "(valid_transitions (current_state s) = Some targets \<and> t \<notin> set targets \<longrightarrow>
      \<not> validate_state_transition s t \<and> request_power_state t s = (False, s))
   \<and> (fst (request_power_state t s) = False \<longrightarrow> snd (request_power_state t s) = s)"
  by (simp add: request_power_state_def validate_state_transition_def Let_def)

theorem request_power_state_rejects_non_adjacent_witness:
  "valid_transitions (current_state PowerManagementSystem_init) = Some [ACTIVE, LOW_POWER]
   \<and> BURST \<notin> set [ACTIVE, LOW_POWER]
   \<and> \<not> validate_state_transition PowerManagementSystem_init BURST
   \<and> request_power_state BURST PowerManagementSystem_init = (False, PowerManagementSystem_init)
   \<and> fst (request_power_state BURST PowerManagementSystem_init) = False
   \<and> snd (request_power_state BURST PowerManagementSystem_init) = PowerManagementSystem_init"
  using request_power_state_rejects_non_adjacent
          [of PowerManagementSystem_init "[ACTIVE, LOW_POWER]" BURST]
  by (simp add: valid_transitions_simps PowerManagementSystem_init_def)



lemma supercapacitor_power_rules:
  "supercap_get_available_power c =
     (if supercap_voltage c > 0 then (1 / 2) * supercap_capacity c * (supercap_voltage c)\<^sup>2 else 0)"
  "\<not> in_burst_mode c \<Longrightarrow> supercap_get_current_power c = 0"
  "supercap_voltage (supercapacitor s) = 0 \<Longrightarrow>
     supercap_get_available_power (supercapacitor s) = 0
     \<and> supercap_get_available_power (supercapacitor (snd (request_power_state t s))) = 0
     \<and> supercap_get_available_power
          (supercapacitor (snd (monitor_power_consumption now s))) = 0
     \<and> supercap_get_available_power (supercapacitor (charge_supercapacitor s)) = 0"
  by (simp_all add: supercap_get_available_power_def supercap_get_current_power_def
      request_power_state_def apply_power_profile_def monitor_power_consumption_def
      charge_supercapacitor_def supercap_charge_def
      enable_burst_mode_def disable_burst_mode_def Let_def)

text \<open>
  C6. The available power of the supercapacitor is half the capacitance times the square
  of the voltage when the voltage is positive and 0 otherwise, and with burst mode
  disabled the delivered power is 0 (the rules above). The period of zero available
  power is not ended by \<open>charge_supercapacitor\<close>: on a freshly constructed system
  (battery level 100, supercapacitor at voltage 0), the input of
  \<open>test_supercapacitor_management\<close>, the available power is 0 before the call and 0
  after it; in the scenario of the specification (STANDBY to ACTIVE to BURST, both
  requests granted, battery level still 100) the available power and, with burst mode
  enabled, the delivered power are 0 after \<open>charge_supercapacitor\<close> as well.
\<close>

theorem charge_supercapacitor_leaves_available_power_zero:
  "battery_level PowerManagementSystem_init = 100
   \<and> supercap_get_available_power (supercapacitor PowerManagementSystem_init) = 0
   \<and> supercap_get_available_power
        (supercapacitor (charge_supercapacitor PowerManagementSystem_init)) = 0
   \<and> fst (request_power_state ACTIVE PowerManagementSystem_init) = True
   \<and> fst (request_power_state BURST (snd (request_power_state ACTIVE PowerManagementSystem_init)))
       = True
   \<and> battery_level
        (snd (request_power_state BURST
           (snd (request_power_state ACTIVE PowerManagementSystem_init)))) = 100
   \<and> supercap_get_available_power
        (supercapacitor
           (snd (request_power_state BURST
              (snd (request_power_state ACTIVE PowerManagementSystem_init))))) = 0
   \<and> supercap_get_available_power
        (supercapacitor (charge_supercapacitor
           (snd (request_power_state BURST
              (snd (request_power_state ACTIVE PowerManagementSystem_init)))))) = 0
   \<and> in_burst_mode
        (supercapacitor (charge_supercapacitor
           (snd (request_power_state BURST
              (snd (request_power_state ACTIVE PowerManagementSystem_init))))))
   \<and> supercap_get_current_power
        (supercapacitor (charge_supercapacitor
           (snd (request_power_state BURST
              (snd (request_power_state ACTIVE PowerManagementSystem_init)))))) = 0"
proof -
  let ?s0 = PowerManagementSystem_init
  let ?s1 = "snd (request_power_state ACTIVE ?s0)"
  let ?s2 = "snd (request_power_state BURST ?s1)"
  have v0: "supercap_voltage (supercapacitor ?s0) = 0"
    by (simp add: power_eval)
  have v2: "supercap_voltage (supercapacitor ?s2) = 0"
    by (simp add: power_eval)
  have b2: "in_burst_mode (supercapacitor ?s2)"
    by (simp add: power_eval)
  have same: "charge_supercapacitor ?s2 = ?s2"
    by (simp add: charge_supercapacitor_def supercap_charge_def)
  have ok1: "fst (request_power_state ACTIVE ?s0) = True"
    by (simp add: power_eval)
  have ok2: "fst (request_power_state BURST ?s1) = True"
    by (simp add: power_eval)
  have l0: "battery_level ?s0 = 100" and l2: "battery_level ?s2 = 100"
    by (simp_all add: power_eval)
  have cur: "supercap_get_current_power (supercapacitor ?s2) = 0"
    using supercapacitor_power_rules(3) [OF v2, of BURST 0]
    by (simp add: supercap_get_current_power_def)
  from supercapacitor_power_rules(3) [OF v0, of ACTIVE 0]
       supercapacitor_power_rules(3) [OF v2, of BURST 0]
  show ?thesis
    by (simp add: ok1 ok2 l0 l2 same b2 cur)
qed


text \<open>
  C10. \<open>charge_supercapacitor\<close> leaves the supercapacitor's voltage and its available
  power as they were, at every battery level: the charge operation stores nothing, and
  the whole system is unchanged.
\<close>

theorem charge_supercapacitor_stores_nothing:
  "supercap_voltage (supercapacitor (charge_supercapacitor s))
     = supercap_voltage (supercapacitor s)
   \<and> supercap_get_available_power (supercapacitor (charge_supercapacitor s))
     = supercap_get_available_power (supercapacitor s)
   \<and> charge_supercapacitor s = s"
  by (simp add: charge_supercapacitor_def supercap_charge_def)

section \<open>Properties of the battery level\<close>

text \<open>
  C5. The level computed from a voltage is 0 at the minimum voltage 3.2 and 100 at the
  maximum voltage 4.2, always lies in [0, 100], is the linear interpolation between the
  two voltages in between, and is monotonic in the voltage. The computation never raises.
\<close>

theorem calculate_battery_level_linear_clamped:
  "calculate_battery_level 3.2 = Inr 0
   \<and> calculate_battery_level 4.2 = Inr 100
   \<and> (\<exists>l. calculate_battery_level v = Inr l \<and> 0 \<le> l \<and> l \<le> 100
          \<and> (3.2 \<le> v \<and> v \<le> 4.2 \<longrightarrow> l = (v - 3.2) / (4.2 - 3.2) * 100))
   \<and> (v1 \<le> v2 \<longrightarrow>
        (\<exists>l1 l2. calculate_battery_level v1 = Inr l1 \<and> calculate_battery_level v2 = Inr l2
                  \<and> l1 \<le> l2))"
  by (auto simp add: calculate_battery_level_def Let_def min_def max_def divide_simps)

theorem calculate_battery_level_linear_clamped_witness:
  "calculate_battery_level 3.2 = Inr 0
   \<and> calculate_battery_level 4.2 = Inr 100
   \<and> calculate_battery_level 3.5 = Inr 30
   \<and> calculate_battery_level 3.9 = Inr 70
   \<and> (3.5::real) \<le> 3.9"
  using calculate_battery_level_linear_clamped [of "3.5" "3.5" "3.9"]
  by (auto simp add: calculate_battery_level_def Let_def)

section \<open>Properties of the safety thresholds\<close>



section \<open>Properties of the status monitor\<close>

lemma record_alert_other:
  "c' \<noteq> c \<Longrightarrow> component_status (record_alert c' level msg d now m) c = component_status m c"
  by (simp add: record_alert_def Let_def split: option.split)

lemma record_alert_interval:
  "status_update_interval (record_alert c' level msg d now m) = status_update_interval m"
  by (simp add: record_alert_def Let_def split: option.split)

lemma record_alert_same:
  "component_status m c = Some st \<Longrightarrow>
   component_status (record_alert c level msg d now m) c =
     Some (st\<lparr>alerts := alerts st @
        [\<lparr>alert_component = c, alert_level = level, alert_message = msg,
          alert_timestamp = now, alert_data = d\<rparr>]\<rparr>)"
  by (simp add: record_alert_def Let_def)

lemma analyze_component_other:
  "c' \<noteq> c \<Longrightarrow> component_status (analyze_component now c' m) c = component_status m c"
  by (simp add: analyze_component_def Let_def record_alert_other split: option.split)

lemma analyze_component_interval:
  "status_update_interval (analyze_component now c' m) = status_update_interval m"
  by (simp add: analyze_component_def Let_def record_alert_interval split: option.split)

lemma analyze_component_same:
  "component_status m c = Some st \<Longrightarrow>
   component_status (analyze_component now c m) c =
     Some (st\<lparr>alerts := alerts st
        @ (if health st < 20 then
             [\<lparr>alert_component = c, alert_level = CRITICAL,
               alert_message = Critical_health c (health st),
               alert_timestamp = now, alert_data = None\<rparr>]
           else if health st < 50 then
             [\<lparr>alert_component = c, alert_level = WARNING,
               alert_message = Low_health c (health st),
               alert_timestamp = now, alert_data = None\<rparr>]
           else [])
        @ (if now - last_update st > status_update_interval m * 3 then
             [\<lparr>alert_component = c, alert_level = ERROR,
               alert_message = Stale_status c,
               alert_timestamp = now, alert_data = None\<rparr>]
           else [])\<rparr>)"
  by (simp add: analyze_component_def Let_def record_alert_same record_alert_interval)

lemma foldl_analyze_other:
  "c \<notin> set cs \<Longrightarrow>
   component_status (foldl (\<lambda>m' x. analyze_component now x m') m cs) c = component_status m c"
  by (induction cs arbitrary: m) (auto simp add: analyze_component_other)

lemma foldl_analyze_interval:
  "status_update_interval (foldl (\<lambda>m' x. analyze_component now x m') m cs)
     = status_update_interval m"
  by (induction cs arbitrary: m) (auto simp add: analyze_component_interval)

lemma foldl_analyze_same:
  "distinct cs \<Longrightarrow> c \<in> set cs \<Longrightarrow>
   component_status (foldl (\<lambda>m' x. analyze_component now x m') m cs) c
     = component_status (analyze_component now c m) c"
proof (induction cs arbitrary: m)
  case Nil
  then show ?case by simp
next
  case (Cons x xs)
  show ?case
  proof (cases "x = c")
    case True
    with Cons.prems have "c \<notin> set xs" by simp
    then show ?thesis using True by (simp add: foldl_analyze_other)
  next
    case False
    with Cons.prems have d: "distinct xs" and i: "c \<in> set xs" by auto
    have "component_status (foldl (\<lambda>m' x. analyze_component now x m') (analyze_component now x m) xs) c
            = component_status (analyze_component now c (analyze_component now x m)) c"
      using Cons.IH [OF d i] .
    also have "\<dots> = component_status (analyze_component now c m) c"
    proof (cases "component_status m c")
      case None
      then have "component_status (analyze_component now x m) c = None"
        using False by (simp add: analyze_component_other)
      then show ?thesis using None by (simp add: analyze_component_def)
    next
      case (Some st)
      then have "component_status (analyze_component now x m) c = Some st"
        using False by (simp add: analyze_component_other)
      then show ?thesis using Some
        by (simp add: analyze_component_same analyze_component_interval)
    qed
    finally show ?thesis by simp
  qed
qed

lemma all_components_complete: "c \<in> set all_components"
  by (cases c) (simp_all add: all_components_def)

lemma all_components_distinct: "distinct all_components"
  by (simp add: all_components_def)

lemma analyze_system_health_component:
  "component_status m c = Some st \<Longrightarrow>
   component_status (analyze_system_health now m) c
     = component_status (analyze_component now c m) c"
  unfolding analyze_system_health_def
  by (rule foldl_analyze_same)
     (simp_all add: all_components_distinct all_components_complete)

lemma analyze_system_health_interval:
  "status_update_interval (analyze_system_health now m) = status_update_interval m"
  by (simp add: analyze_system_health_def foldl_analyze_interval)

text \<open>
  C7. One pass of the health analysis appends to the alerts of every component the monitor
  tracks: a CRITICAL alert when its health is below 20, a WARNING alert when its health
  is at least 20 and below 50, no health alert when its health is at least 50; after it
  an ERROR alert when the status is stale. The health is not changed, and nothing is
  remembered between passes: a second pass appends the same health alert again.
\<close>

theorem analyze_system_health_alerts:
  assumes "component_status m c = Some st"
  shows "component_status (analyze_system_health now m) c =
     Some (st\<lparr>alerts := alerts st
        @ (if health st < 20 then
             [\<lparr>alert_component = c, alert_level = CRITICAL,
               alert_message = Critical_health c (health st),
               alert_timestamp = now, alert_data = None\<rparr>]
           else if health st < 50 then
             [\<lparr>alert_component = c, alert_level = WARNING,
               alert_message = Low_health c (health st),
               alert_timestamp = now, alert_data = None\<rparr>]
           else [])
        @ (if now - last_update st > status_update_interval m * 3 then
             [\<lparr>alert_component = c, alert_level = ERROR,
               alert_message = Stale_status c,
               alert_timestamp = now, alert_data = None\<rparr>]
           else [])\<rparr>)
    \<and> component_status (analyze_system_health now' (analyze_system_health now m)) c =
     Some (st\<lparr>alerts := alerts st
        @ (if health st < 20 then
             [\<lparr>alert_component = c, alert_level = CRITICAL,
               alert_message = Critical_health c (health st),
               alert_timestamp = now, alert_data = None\<rparr>]
           else if health st < 50 then
             [\<lparr>alert_component = c, alert_level = WARNING,
               alert_message = Low_health c (health st),
               alert_timestamp = now, alert_data = None\<rparr>]
           else [])
        @ (if now - last_update st > status_update_interval m * 3 then
             [\<lparr>alert_component = c, alert_level = ERROR,
               alert_message = Stale_status c,
               alert_timestamp = now, alert_data = None\<rparr>]
           else [])
        @ (if health st < 20 then
             [\<lparr>alert_component = c, alert_level = CRITICAL,
               alert_message = Critical_health c (health st),
               alert_timestamp = now', alert_data = None\<rparr>]
           else if health st < 50 then
             [\<lparr>alert_component = c, alert_level = WARNING,
               alert_message = Low_health c (health st),
               alert_timestamp = now', alert_data = None\<rparr>]
           else [])
        @ (if now' - last_update st > status_update_interval m * 3 then
             [\<lparr>alert_component = c, alert_level = ERROR,
               alert_message = Stale_status c,
               alert_timestamp = now', alert_data = None\<rparr>]
           else [])\<rparr>)"
proof -
  let ?m1 = "analyze_system_health now m"
  have first: "component_status ?m1 c = component_status (analyze_component now c m) c"
    using assms by (rule analyze_system_health_component)
  obtain st1 where st1: "component_status ?m1 c = Some st1"
    and h1: "health st1 = health st" and u1: "last_update st1 = last_update st"
    and a1: "component_status (analyze_component now c m) c = Some st1"
    using first analyze_component_same [OF assms, of now] by simp
  have second: "component_status (analyze_system_health now' ?m1) c
      = component_status (analyze_component now' c ?m1) c"
    using st1 by (rule analyze_system_health_component)
  show ?thesis
    using first second analyze_component_same [OF assms, of now]
      analyze_component_same [OF st1, of now'] h1 u1 a1
    by (simp add: analyze_system_health_interval)
qed

theorem analyze_system_health_alerts_witness:
  "component_status
     (StatusMonitor_init\<lparr>component_status :=
        [Comp_POWER \<mapsto> \<lparr>cs_component = Comp_POWER, cs_status = ''degraded'', health = 10,
                          last_update = 0, metrics = Map.empty, alerts = []\<rparr>]\<rparr>) Comp_POWER
     = Some \<lparr>cs_component = Comp_POWER, cs_status = ''degraded'', health = 10,
             last_update = 0, metrics = Map.empty, alerts = []\<rparr>
   \<and> component_status
       (analyze_system_health 2 (analyze_system_health 1
          (StatusMonitor_init\<lparr>component_status :=
             [Comp_POWER \<mapsto> \<lparr>cs_component = Comp_POWER, cs_status = ''degraded'', health = 10,
                               last_update = 0, metrics = Map.empty, alerts = []\<rparr>]\<rparr>)))
       Comp_POWER
     = Some \<lparr>cs_component = Comp_POWER, cs_status = ''degraded'', health = 10,
             last_update = 0, metrics = Map.empty,
             alerts =
               [\<lparr>alert_component = Comp_POWER, alert_level = CRITICAL,
                 alert_message = Critical_health Comp_POWER 10,
                 alert_timestamp = 1, alert_data = None\<rparr>,
                \<lparr>alert_component = Comp_POWER, alert_level = CRITICAL,
                 alert_message = Critical_health Comp_POWER 10,
                 alert_timestamp = 2, alert_data = None\<rparr>]\<rparr>"
proof -
  let ?st = "\<lparr>cs_component = Comp_POWER, cs_status = ''degraded'', health = 10,
              last_update = 0, metrics = Map.empty, alerts = []\<rparr>"
  let ?m = "StatusMonitor_init\<lparr>component_status := [Comp_POWER \<mapsto> ?st]\<rparr>"
  have h: "component_status ?m Comp_POWER = Some ?st" by simp
  have i: "status_update_interval ?m = 1" by (simp add: StatusMonitor_init_def)
  from analyze_system_health_alerts [OF h, of 1 2] h i
  show ?thesis by simp
qed


section \<open>Properties of the safety monitor\<close>

lemmas safety_defs =
  check_safety_threshold_def handle_critical_condition_def handle_warning_condition_def
  handle_condition_recovery_def execute_safety_action_def process_condition_def
  events_of_def actions_of_def Let_def

lemma check_frame:
  "current_conditions (check_safety_threshold c' now s) = current_conditions s"
  "thresholds (check_safety_threshold c' now s) = thresholds s"
  by (simp_all add: safety_defs split: option.split)

lemma check_other:
  "c' \<noteq> c \<Longrightarrow> events_of c (check_safety_threshold c' now s) = events_of c s"
  "c' \<noteq> c \<Longrightarrow> actions_of c (check_safety_threshold c' now s) = actions_of c s"
  "c' \<noteq> c \<Longrightarrow> active_warnings (check_safety_threshold c' now s) c = active_warnings s c"
  by (simp_all add: safety_defs split: option.split)

lemma process_frame:
  "current_conditions (process_condition c' s) = current_conditions s"
  "thresholds (process_condition c' s) = thresholds s"
  "events_of c (process_condition c' s) = events_of c s"
  "active_warnings (process_condition c' s) = active_warnings s"
  by (simp_all add: safety_defs split: option.split)

lemma process_other:
  "c' \<noteq> c \<Longrightarrow> actions_of c (process_condition c' s) = actions_of c s"
  by (simp add: safety_defs split: option.split)


lemma check_absent:
  "current_conditions s c = None \<Longrightarrow> check_safety_threshold c now s = s"
  by (simp add: check_safety_threshold_def)

lemma check_same_events:
  "current_conditions s c = Some v \<Longrightarrow>
   events_of c (check_safety_threshold c now s) = events_of c s @
     (if v \<ge> critical_level (thresholds s c) then
        [\<lparr>ev_condition = c, ev_level = v, action_taken = th_action (thresholds s c),
          ev_timestamp = now, description = Critical_level c v\<rparr>]
      else if v \<ge> warning_level (thresholds s c) then
        (if active_warnings s c = None then
           [\<lparr>ev_condition = c, ev_level = v, action_taken = Act_NOTIFY,
             ev_timestamp = now, description = Warning_level c v\<rparr>]
         else [])
      else if active_warnings s c \<noteq> None \<and> v \<le> recovery_level (thresholds s c) then
        [\<lparr>ev_condition = c, ev_level = v, action_taken = Act_NOTIFY,
          ev_timestamp = now, description = Recovered_to_safe_level c\<rparr>]
      else [])"
  by (simp add: safety_defs)

lemma check_same_actions:
  "current_conditions s c = Some v \<Longrightarrow>
   actions_of c (check_safety_threshold c now s) = actions_of c s @
     (if v \<ge> critical_level (thresholds s c) then [(th_action (thresholds s c), c, v)] else [])"
  by (simp add: safety_defs)

lemma check_same_warnings:
  "current_conditions s c = Some v \<Longrightarrow>
   active_warnings (check_safety_threshold c now s) c =
     (if v \<ge> critical_level (thresholds s c) then active_warnings s c
      else if v \<ge> warning_level (thresholds s c) then
        (if active_warnings s c = None then Some now else active_warnings s c)
      else if active_warnings s c \<noteq> None \<and> v \<le> recovery_level (thresholds s c) then None
      else active_warnings s c)"
  by (simp add: safety_defs)

lemma check_commute:
  assumes "x \<noteq> c"
  shows "events_of c (check_safety_threshold c now (check_safety_threshold x now s))
           = events_of c (check_safety_threshold c now s)"
    and "actions_of c (check_safety_threshold c now (check_safety_threshold x now s))
           = actions_of c (check_safety_threshold c now s)"
    and "active_warnings (check_safety_threshold c now (check_safety_threshold x now s)) c
           = active_warnings (check_safety_threshold c now s) c"
proof -
  let ?s' = "check_safety_threshold x now s"
  have cc: "current_conditions ?s' c = current_conditions s c" by (simp add: check_frame)
  show "events_of c (check_safety_threshold c now ?s') = events_of c (check_safety_threshold c now s)"
  proof (cases "current_conditions s c")
    case None
    then show ?thesis using cc assms by (simp add: check_absent check_other)
  next
    case (Some v)
    then show ?thesis using cc assms by (simp add: check_same_events check_other check_frame)
  qed
  show "actions_of c (check_safety_threshold c now ?s') = actions_of c (check_safety_threshold c now s)"
  proof (cases "current_conditions s c")
    case None
    then show ?thesis using cc assms by (simp add: check_absent check_other)
  next
    case (Some v)
    then show ?thesis using cc assms by (simp add: check_same_actions check_other check_frame)
  qed
  show "active_warnings (check_safety_threshold c now ?s') c
          = active_warnings (check_safety_threshold c now s) c"
  proof (cases "current_conditions s c")
    case None
    then show ?thesis using cc assms by (simp add: check_absent check_other)
  next
    case (Some v)
    then show ?thesis using cc assms by (simp add: check_same_warnings check_other check_frame)
  qed
qed

lemma foldl_check_frame:
  "current_conditions (foldl (\<lambda>s' x. check_safety_threshold x now s') s cs) = current_conditions s
   \<and> thresholds (foldl (\<lambda>s' x. check_safety_threshold x now s') s cs) = thresholds s"
  by (induction cs arbitrary: s) (simp_all add: check_frame)

lemma foldl_check_other:
  "c \<notin> set cs \<Longrightarrow>
   events_of c (foldl (\<lambda>s' x. check_safety_threshold x now s') s cs) = events_of c s
   \<and> actions_of c (foldl (\<lambda>s' x. check_safety_threshold x now s') s cs) = actions_of c s
   \<and> active_warnings (foldl (\<lambda>s' x. check_safety_threshold x now s') s cs) c
       = active_warnings s c"
  by (induction cs arbitrary: s) (simp_all add: check_other [OF not_sym])

lemma foldl_check_same:
  "distinct cs \<Longrightarrow> c \<in> set cs \<Longrightarrow>
   events_of c (foldl (\<lambda>s' x. check_safety_threshold x now s') s cs)
     = events_of c (check_safety_threshold c now s)
   \<and> actions_of c (foldl (\<lambda>s' x. check_safety_threshold x now s') s cs)
     = actions_of c (check_safety_threshold c now s)
   \<and> active_warnings (foldl (\<lambda>s' x. check_safety_threshold x now s') s cs) c
     = active_warnings (check_safety_threshold c now s) c"
proof (induction cs arbitrary: s)
  case Nil
  then show ?case by simp
next
  case (Cons x xs)
  show ?case
  proof (cases "x = c")
    case True
    with Cons.prems have "c \<notin> set xs" by simp
    from foldl_check_other [OF this] True show ?thesis by simp
  next
    case False
    with Cons.prems have "distinct xs" and "c \<in> set xs" by auto
    from Cons.IH [OF this, of "check_safety_threshold x now s"] check_commute [OF False]
    show ?thesis by simp
  qed
qed

lemma process_same_actions:
  "current_conditions s c = Some v \<Longrightarrow>
   actions_of c (process_condition c s) = actions_of c s @
     (if v \<ge> critical_level (thresholds s c) then [(th_action (thresholds s c), c, v)] else [])"
  by (simp add: safety_defs)

lemma foldl_process_frame:
  "current_conditions (foldl (\<lambda>s' x. process_condition x s') s cs) = current_conditions s
   \<and> thresholds (foldl (\<lambda>s' x. process_condition x s') s cs) = thresholds s
   \<and> events_of c (foldl (\<lambda>s' x. process_condition x s') s cs) = events_of c s
   \<and> active_warnings (foldl (\<lambda>s' x. process_condition x s') s cs) = active_warnings s"
  by (induction cs arbitrary: s) (simp_all add: process_frame)

lemma foldl_process_other:
  "c \<notin> set cs \<Longrightarrow>
   actions_of c (foldl (\<lambda>s' x. process_condition x s') s cs) = actions_of c s"
  by (induction cs arbitrary: s) (simp_all add: process_other [OF not_sym])

lemma foldl_process_same:
  "distinct cs \<Longrightarrow> c \<in> set cs \<Longrightarrow> current_conditions s c = Some v \<Longrightarrow>
   actions_of c (foldl (\<lambda>s' x. process_condition x s') s cs) = actions_of c s @
     (if v \<ge> critical_level (thresholds s c) then [(th_action (thresholds s c), c, v)] else [])"
proof (induction cs arbitrary: s)
  case Nil
  then show ?case by simp
next
  case (Cons x xs)
  show ?case
  proof (cases "x = c")
    case True
    with Cons.prems have "c \<notin> set xs" by simp
    from foldl_process_other [OF this] True Cons.prems(3) show ?thesis
      by (simp add: process_same_actions)
  next
    case False
    with Cons.prems have d: "distinct xs" and i: "c \<in> set xs" by auto
    have cc: "current_conditions (process_condition x s) c = Some v"
      using Cons.prems(3) by (simp add: process_frame)
    from Cons.IH [OF d i cc] False show ?thesis
      by (simp add: process_frame process_other)
  qed
qed

lemma all_conditions_complete: "c \<in> set all_conditions"
  by (cases c) (simp_all add: all_conditions_def)

lemma all_conditions_distinct: "distinct all_conditions"
  by (simp add: all_conditions_def)

lemma pass_frame:
  "current_conditions (safety_monitor_pass now s) = current_conditions s"
  "thresholds (safety_monitor_pass now s) = thresholds s"
  by (simp_all add: safety_monitor_pass_def process_safety_actions_def check_all_thresholds_def
      foldl_process_frame foldl_check_frame)

lemma pass_events:
  "current_conditions s c = Some v \<Longrightarrow>
   events_of c (safety_monitor_pass now s) = events_of c s @
     (if v \<ge> critical_level (thresholds s c) then
        [\<lparr>ev_condition = c, ev_level = v, action_taken = th_action (thresholds s c),
          ev_timestamp = now, description = Critical_level c v\<rparr>]
      else if v \<ge> warning_level (thresholds s c) then
        (if active_warnings s c = None then
           [\<lparr>ev_condition = c, ev_level = v, action_taken = Act_NOTIFY,
             ev_timestamp = now, description = Warning_level c v\<rparr>]
         else [])
      else if active_warnings s c \<noteq> None \<and> v \<le> recovery_level (thresholds s c) then
        [\<lparr>ev_condition = c, ev_level = v, action_taken = Act_NOTIFY,
          ev_timestamp = now, description = Recovered_to_safe_level c\<rparr>]
      else [])"
  using foldl_check_same [OF all_conditions_distinct all_conditions_complete, of c now s]
  by (simp add: safety_monitor_pass_def process_safety_actions_def check_all_thresholds_def
      foldl_process_frame check_same_events)

lemma pass_warnings:
  "current_conditions s c = Some v \<Longrightarrow>
   active_warnings (safety_monitor_pass now s) c =
     (if v \<ge> critical_level (thresholds s c) then active_warnings s c
      else if v \<ge> warning_level (thresholds s c) then
        (if active_warnings s c = None then Some now else active_warnings s c)
      else if active_warnings s c \<noteq> None \<and> v \<le> recovery_level (thresholds s c) then None
      else active_warnings s c)"
  using foldl_check_same [OF all_conditions_distinct all_conditions_complete, of c now s]
  by (simp add: safety_monitor_pass_def process_safety_actions_def check_all_thresholds_def
      foldl_process_frame check_same_warnings)

lemma pass_actions:
  assumes "current_conditions s c = Some v"
  shows "actions_of c (safety_monitor_pass now s) = actions_of c s @
     (if v \<ge> critical_level (thresholds s c)
      then [(th_action (thresholds s c), c, v), (th_action (thresholds s c), c, v)]
      else [])"
proof -
  let ?s1 = "check_all_thresholds now s"
  have cc: "current_conditions ?s1 c = Some v" and th: "thresholds ?s1 = thresholds s"
    using assms by (simp_all add: check_all_thresholds_def foldl_check_frame)
  have a1: "actions_of c ?s1 = actions_of c (check_safety_threshold c now s)"
    using foldl_check_same [OF all_conditions_distinct all_conditions_complete, of c now s]
    by (simp add: check_all_thresholds_def)
  have "actions_of c (safety_monitor_pass now s) = actions_of c ?s1 @
     (if v \<ge> critical_level (thresholds ?s1 c) then [(th_action (thresholds ?s1 c), c, v)] else [])"
    unfolding safety_monitor_pass_def process_safety_actions_def
    using foldl_process_same [OF all_conditions_distinct all_conditions_complete cc] .
  then show ?thesis
    using assms by (simp add: a1 th check_same_actions)
qed


lemma tick_step:
  assumes "m c = Some v"
  shows "events_of c (safety_monitor_pass now (s\<lparr>current_conditions := current_conditions s ++ m\<rparr>))
     = events_of c s @
     (if v \<ge> critical_level (thresholds s c) then
        [\<lparr>ev_condition = c, ev_level = v, action_taken = th_action (thresholds s c),
          ev_timestamp = now, description = Critical_level c v\<rparr>]
      else if v \<ge> warning_level (thresholds s c) then
        (if active_warnings s c = None then
           [\<lparr>ev_condition = c, ev_level = v, action_taken = Act_NOTIFY,
             ev_timestamp = now, description = Warning_level c v\<rparr>]
         else [])
      else if active_warnings s c \<noteq> None \<and> v \<le> recovery_level (thresholds s c) then
        [\<lparr>ev_condition = c, ev_level = v, action_taken = Act_NOTIFY,
          ev_timestamp = now, description = Recovered_to_safe_level c\<rparr>]
      else [])"
    and "actions_of c (safety_monitor_pass now (s\<lparr>current_conditions := current_conditions s ++ m\<rparr>))
     = actions_of c s @
     (if v \<ge> critical_level (thresholds s c)
      then [(th_action (thresholds s c), c, v), (th_action (thresholds s c), c, v)]
      else [])"
    and "active_warnings (safety_monitor_pass now (s\<lparr>current_conditions := current_conditions s ++ m\<rparr>)) c
     = (if v \<ge> critical_level (thresholds s c) then active_warnings s c
        else if v \<ge> warning_level (thresholds s c) then
          (if active_warnings s c = None then Some now else active_warnings s c)
        else if active_warnings s c \<noteq> None \<and> v \<le> recovery_level (thresholds s c) then None
        else active_warnings s c)"
    and "thresholds (safety_monitor_pass now (s\<lparr>current_conditions := current_conditions s ++ m\<rparr>))
     = thresholds s"
proof -
  let ?s = "s\<lparr>current_conditions := current_conditions s ++ m\<rparr>"
  have cc: "current_conditions ?s c = Some v" using assms by simp
  have same: "events_of c ?s = events_of c s" "actions_of c ?s = actions_of c s"
    "active_warnings ?s = active_warnings s" "thresholds ?s = thresholds s"
    by (simp_all add: events_of_def actions_of_def)
  show "events_of c (safety_monitor_pass now ?s) = events_of c s @
     (if v \<ge> critical_level (thresholds s c) then
        [\<lparr>ev_condition = c, ev_level = v, action_taken = th_action (thresholds s c),
          ev_timestamp = now, description = Critical_level c v\<rparr>]
      else if v \<ge> warning_level (thresholds s c) then
        (if active_warnings s c = None then
           [\<lparr>ev_condition = c, ev_level = v, action_taken = Act_NOTIFY,
             ev_timestamp = now, description = Warning_level c v\<rparr>]
         else [])
      else if active_warnings s c \<noteq> None \<and> v \<le> recovery_level (thresholds s c) then
        [\<lparr>ev_condition = c, ev_level = v, action_taken = Act_NOTIFY,
          ev_timestamp = now, description = Recovered_to_safe_level c\<rparr>]
      else [])"
    using pass_events [OF cc, of now] by (simp only: same)
  show "actions_of c (safety_monitor_pass now ?s) = actions_of c s @
     (if v \<ge> critical_level (thresholds s c)
      then [(th_action (thresholds s c), c, v), (th_action (thresholds s c), c, v)]
      else [])"
    using pass_actions [OF cc, of now] by (simp only: same)
  show "active_warnings (safety_monitor_pass now ?s) c
     = (if v \<ge> critical_level (thresholds s c) then active_warnings s c
        else if v \<ge> warning_level (thresholds s c) then
          (if active_warnings s c = None then Some now else active_warnings s c)
        else if active_warnings s c \<noteq> None \<and> v \<le> recovery_level (thresholds s c) then None
        else active_warnings s c)"
    using pass_warnings [OF cc, of now] by (simp only: same)
  show "thresholds (safety_monitor_pass now ?s) = thresholds s"
    by (simp add: pass_frame)
qed

text \<open>
  The value sequence of C2 on the temperature condition with its default threshold
  (warning 40, critical 50, recovery 35), from an initialized manager: the action of the
  threshold is executed twice, not once.
\<close>

theorem hysteresis_action_count_counterexample:
  "length (actions_of Cond_TEMPERATURE
        (safety_monitor_loop
           [(1, [Cond_TEMPERATURE \<mapsto> 0]), (2, [Cond_TEMPERATURE \<mapsto> 41]),
            (3, [Cond_TEMPERATURE \<mapsto> 51]), (4, [Cond_TEMPERATURE \<mapsto> 41]),
            (5, [Cond_TEMPERATURE \<mapsto> 34])]
           (safety_manager_initialize
              (SafetyManager_init (status_monitor_initialize 0 StatusMonitor_init))))) = 2"
proof -
  let ?T = Cond_TEMPERATURE
  let ?s0 = "safety_manager_initialize
              (SafetyManager_init (status_monitor_initialize 0 StatusMonitor_init))"
  let ?s1 = "safety_monitor_pass 1 (?s0\<lparr>current_conditions := (current_conditions ?s0)(?T \<mapsto> 0)\<rparr>)"
  let ?s2 = "safety_monitor_pass 2 (?s1\<lparr>current_conditions := (current_conditions ?s1)(?T \<mapsto> 41)\<rparr>)"
  let ?s3 = "safety_monitor_pass 3 (?s2\<lparr>current_conditions := (current_conditions ?s2)(?T \<mapsto> 51)\<rparr>)"
  let ?s4 = "safety_monitor_pass 4 (?s3\<lparr>current_conditions := (current_conditions ?s3)(?T \<mapsto> 41)\<rparr>)"
  let ?s5 = "safety_monitor_pass 5 (?s4\<lparr>current_conditions := (current_conditions ?s4)(?T \<mapsto> 34)\<rparr>)"
  have th0: "thresholds ?s0 = default_thresholds"
    by (simp add: safety_manager_initialize_def SafetyManager_init_def)
  have th1: "thresholds ?s1 = default_thresholds" using th0 by (simp add: pass_frame)
  have th2: "thresholds ?s2 = default_thresholds" using th1 by (simp add: pass_frame)
  have th3: "thresholds ?s3 = default_thresholds" using th2 by (simp add: pass_frame)
  have th4: "thresholds ?s4 = default_thresholds" using th3 by (simp add: pass_frame)
  have x0: "actions_of ?T ?s0 = []"
    by (simp add: actions_of_def safety_manager_initialize_def SafetyManager_init_def)
  have x1: "actions_of ?T ?s1 = []"
    using tick_step(2) [where m="[?T \<mapsto> 0]" and c="?T" and v=0 and now=1 and s="?s0"]
    by (simp add: th0 x0)
  have x2: "actions_of ?T ?s2 = []"
    using tick_step(2) [where m="[?T \<mapsto> 41]" and c="?T" and v=41 and now=2 and s="?s1"]
    by (simp add: th1 x1)
  have x3: "actions_of ?T ?s3 = [(Act_SHUTDOWN, ?T, 51), (Act_SHUTDOWN, ?T, 51)]"
    using tick_step(2) [where m="[?T \<mapsto> 51]" and c="?T" and v=51 and now=3 and s="?s2"]
    by (simp add: th2 x2)
  have x4: "actions_of ?T ?s4 = [(Act_SHUTDOWN, ?T, 51), (Act_SHUTDOWN, ?T, 51)]"
    using tick_step(2) [where m="[?T \<mapsto> 41]" and c="?T" and v=41 and now=4 and s="?s3"]
    by (simp add: th3 x3)
  have x5: "actions_of ?T ?s5 = [(Act_SHUTDOWN, ?T, 51), (Act_SHUTDOWN, ?T, 51)]"
    using tick_step(2) [where m="[?T \<mapsto> 34]" and c="?T" and v=34 and now=5 and s="?s4"]
    by (simp add: th4 x4)
  have "safety_monitor_loop
           [(1, [?T \<mapsto> 0]), (2, [?T \<mapsto> 41]), (3, [?T \<mapsto> 51]), (4, [?T \<mapsto> 41]),
            (5, [?T \<mapsto> 34])] ?s0 = ?s5"
    by simp
  then show ?thesis by (simp only: x5) simp
qed

text \<open>
  C2, as the code has it. Take a condition whose threshold has
  \<open>recovery_level < warning_level\<close>, \<open>0 < warning_level\<close> and
  \<open>warning_level + 1 < critical_level\<close>, with no active warning. Over five ticks that
  feed it 0, \<open>warning_level + 1\<close>, \<open>critical_level + 1\<close>, \<open>warning_level + 1\<close> and
  \<open>recovery_level - 1\<close> (the other conditions take any values), the events recorded for
  it are one warning event (second tick), one critical event (third tick) and one recovery
  event (fifth tick), and the action of the threshold is executed for it twice, both times
  in the third tick: by the handler of the critical condition and by the pass over the
  pending actions.
\<close>

theorem hysteresis_sequence_fires_action_twice:
  assumes r: "recovery_level (thresholds s0 c) < warning_level (thresholds s0 c)"
    and z: "0 < warning_level (thresholds s0 c)"
    and w: "warning_level (thresholds s0 c) + 1 < critical_level (thresholds s0 c)"
    and a: "active_warnings s0 c = None"
    and m1: "m1 c = Some 0"
    and m2: "m2 c = Some (warning_level (thresholds s0 c) + 1)"
    and m3: "m3 c = Some (critical_level (thresholds s0 c) + 1)"
    and m4: "m4 c = Some (warning_level (thresholds s0 c) + 1)"
    and m5: "m5 c = Some (recovery_level (thresholds s0 c) - 1)"
  shows "events_of c (safety_monitor_loop [(t1, m1), (t2, m2), (t3, m3), (t4, m4), (t5, m5)] s0)
      = events_of c s0 @
        [\<lparr>ev_condition = c, ev_level = warning_level (thresholds s0 c) + 1,
          action_taken = Act_NOTIFY, ev_timestamp = t2,
          description = Warning_level c (warning_level (thresholds s0 c) + 1)\<rparr>,
         \<lparr>ev_condition = c, ev_level = critical_level (thresholds s0 c) + 1,
          action_taken = th_action (thresholds s0 c), ev_timestamp = t3,
          description = Critical_level c (critical_level (thresholds s0 c) + 1)\<rparr>,
         \<lparr>ev_condition = c, ev_level = recovery_level (thresholds s0 c) - 1,
          action_taken = Act_NOTIFY, ev_timestamp = t5,
          description = Recovered_to_safe_level c\<rparr>]
    \<and> actions_of c (safety_monitor_loop [(t1, m1), (t2, m2), (t3, m3), (t4, m4), (t5, m5)] s0)
      = actions_of c s0 @
        [(th_action (thresholds s0 c), c, critical_level (thresholds s0 c) + 1),
         (th_action (thresholds s0 c), c, critical_level (thresholds s0 c) + 1)]"
proof -
  let ?th = "thresholds s0 c"
  let ?s1 = "safety_monitor_pass t1 (s0\<lparr>current_conditions := current_conditions s0 ++ m1\<rparr>)"
  let ?s2 = "safety_monitor_pass t2 (?s1\<lparr>current_conditions := current_conditions ?s1 ++ m2\<rparr>)"
  let ?s3 = "safety_monitor_pass t3 (?s2\<lparr>current_conditions := current_conditions ?s2 ++ m3\<rparr>)"
  let ?s4 = "safety_monitor_pass t4 (?s3\<lparr>current_conditions := current_conditions ?s3 ++ m4\<rparr>)"
  let ?s5 = "safety_monitor_pass t5 (?s4\<lparr>current_conditions := current_conditions ?s4 ++ m5\<rparr>)"
  have cmp: "\<not> critical_level ?th \<le> 0" "\<not> warning_level ?th \<le> 0"
    "\<not> critical_level ?th \<le> warning_level ?th + 1"
    "\<not> critical_level ?th \<le> recovery_level ?th - 1"
    "\<not> warning_level ?th \<le> recovery_level ?th - 1"
    using r z w by simp_all
  have th1: "thresholds ?s1 = thresholds s0" by (simp add: pass_frame)
  have th2: "thresholds ?s2 = thresholds s0" using th1 by (simp add: pass_frame)
  have th3: "thresholds ?s3 = thresholds s0" using th2 by (simp add: pass_frame)
  have th4: "thresholds ?s4 = thresholds s0" using th3 by (simp add: pass_frame)
  have e1: "events_of c ?s1 = events_of c s0" and x1: "actions_of c ?s1 = actions_of c s0"
    and a1: "active_warnings ?s1 c = None"
    using tick_step(1-3) [where m=m1 and c=c and now=t1 and s="s0", OF m1] a cmp by simp_all
  have e2: "events_of c ?s2 = events_of c s0 @
        [\<lparr>ev_condition = c, ev_level = warning_level ?th + 1,
          action_taken = Act_NOTIFY, ev_timestamp = t2,
          description = Warning_level c (warning_level ?th + 1)\<rparr>]"
    and x2: "actions_of c ?s2 = actions_of c s0"
    and a2: "active_warnings ?s2 c = Some t2"
    using tick_step(1-3) [where m=m2 and c=c and now=t2 and s="?s1", OF m2] a1 e1 x1 cmp by (simp_all add: th1)
  have e3: "events_of c ?s3 = events_of c ?s2 @
        [\<lparr>ev_condition = c, ev_level = critical_level ?th + 1,
          action_taken = th_action ?th, ev_timestamp = t3,
          description = Critical_level c (critical_level ?th + 1)\<rparr>]"
    and x3: "actions_of c ?s3 = actions_of c s0 @
        [(th_action ?th, c, critical_level ?th + 1), (th_action ?th, c, critical_level ?th + 1)]"
    and a3: "active_warnings ?s3 c = Some t2"
    using tick_step(1-3) [where m=m3 and c=c and now=t3 and s="?s2", OF m3] a2 x2 by (simp_all add: th2)
  have e4: "events_of c ?s4 = events_of c ?s3" and x4: "actions_of c ?s4 = actions_of c ?s3"
    and a4: "active_warnings ?s4 c = Some t2"
    using tick_step(1-3) [where m=m4 and c=c and now=t4 and s="?s3", OF m4] a3 cmp by (simp_all add: th3)
  have e5: "events_of c ?s5 = events_of c ?s4 @
        [\<lparr>ev_condition = c, ev_level = recovery_level ?th - 1,
          action_taken = Act_NOTIFY, ev_timestamp = t5,
          description = Recovered_to_safe_level c\<rparr>]"
    and x5: "actions_of c ?s5 = actions_of c ?s4"
    using tick_step(1-2) [where m=m5 and c=c and now=t5 and s="?s4", OF m5] a4 cmp by (simp_all add: th4)
  have loop: "safety_monitor_loop [(t1, m1), (t2, m2), (t3, m3), (t4, m4), (t5, m5)] s0 = ?s5"
    by simp
  show ?thesis
    unfolding loop by (simp add: e5 e4 e3 e2 x5 x4 x3)
qed

theorem hysteresis_sequence_fires_action_twice_witness:
  "recovery_level (thresholds (safety_manager_initialize
       (SafetyManager_init (status_monitor_initialize 0 StatusMonitor_init))) Cond_TEMPERATURE) = 35
   \<and> warning_level (thresholds (safety_manager_initialize
       (SafetyManager_init (status_monitor_initialize 0 StatusMonitor_init))) Cond_TEMPERATURE) = 40
   \<and> critical_level (thresholds (safety_manager_initialize
       (SafetyManager_init (status_monitor_initialize 0 StatusMonitor_init))) Cond_TEMPERATURE) = 50
   \<and> active_warnings (safety_manager_initialize
       (SafetyManager_init (status_monitor_initialize 0 StatusMonitor_init))) Cond_TEMPERATURE = None
   \<and> events_of Cond_TEMPERATURE
        (safety_monitor_loop
           [(1, [Cond_TEMPERATURE \<mapsto> 0]), (2, [Cond_TEMPERATURE \<mapsto> 41]),
            (3, [Cond_TEMPERATURE \<mapsto> 51]), (4, [Cond_TEMPERATURE \<mapsto> 41]),
            (5, [Cond_TEMPERATURE \<mapsto> 34])]
           (safety_manager_initialize
              (SafetyManager_init (status_monitor_initialize 0 StatusMonitor_init))))
      = [\<lparr>ev_condition = Cond_TEMPERATURE, ev_level = 41, action_taken = Act_NOTIFY,
           ev_timestamp = 2, description = Warning_level Cond_TEMPERATURE 41\<rparr>,
         \<lparr>ev_condition = Cond_TEMPERATURE, ev_level = 51, action_taken = Act_SHUTDOWN,
           ev_timestamp = 3, description = Critical_level Cond_TEMPERATURE 51\<rparr>,
         \<lparr>ev_condition = Cond_TEMPERATURE, ev_level = 34, action_taken = Act_NOTIFY,
           ev_timestamp = 5, description = Recovered_to_safe_level Cond_TEMPERATURE\<rparr>]
   \<and> actions_of Cond_TEMPERATURE
        (safety_monitor_loop
           [(1, [Cond_TEMPERATURE \<mapsto> 0]), (2, [Cond_TEMPERATURE \<mapsto> 41]),
            (3, [Cond_TEMPERATURE \<mapsto> 51]), (4, [Cond_TEMPERATURE \<mapsto> 41]),
            (5, [Cond_TEMPERATURE \<mapsto> 34])]
           (safety_manager_initialize
              (SafetyManager_init (status_monitor_initialize 0 StatusMonitor_init))))
      = [(Act_SHUTDOWN, Cond_TEMPERATURE, 51), (Act_SHUTDOWN, Cond_TEMPERATURE, 51)]"
proof -
  let ?S = "safety_manager_initialize
              (SafetyManager_init (status_monitor_initialize 0 StatusMonitor_init))"
  let ?T = Cond_TEMPERATURE
  have th: "thresholds ?S = default_thresholds"
    by (simp add: safety_manager_initialize_def SafetyManager_init_def)
  have a: "active_warnings ?S ?T = None"
    by (simp add: safety_manager_initialize_def SafetyManager_init_def)
  have e: "events_of ?T ?S = []" and x: "actions_of ?T ?S = []"
    by (simp_all add: events_of_def actions_of_def safety_manager_initialize_def
        SafetyManager_init_def)
  have r: "recovery_level (thresholds ?S ?T) < warning_level (thresholds ?S ?T)"
    and z: "0 < warning_level (thresholds ?S ?T)"
    and w: "warning_level (thresholds ?S ?T) + 1 < critical_level (thresholds ?S ?T)"
    by (simp_all add: th)
  have m1: "[?T \<mapsto> 0::real] ?T = Some 0" by simp
  have m2: "[?T \<mapsto> 41::real] ?T = Some (warning_level (thresholds ?S ?T) + 1)"
    by (simp add: th)
  have m3: "[?T \<mapsto> 51::real] ?T = Some (critical_level (thresholds ?S ?T) + 1)"
    by (simp add: th)
  have m5: "[?T \<mapsto> 34::real] ?T = Some (recovery_level (thresholds ?S ?T) - 1)"
    by (simp add: th)
  from hysteresis_sequence_fires_action_twice
         [where ?s0.0="?S" and c="?T" and ?m1.0="[?T \<mapsto> 0]" and ?m2.0="[?T \<mapsto> 41]"
            and ?m3.0="[?T \<mapsto> 51]" and ?m4.0="[?T \<mapsto> 41]" and ?m5.0="[?T \<mapsto> 34]"
            and ?t1.0=1 and ?t2.0=2 and ?t3.0=3 and ?t4.0=4 and ?t5.0=5,
          OF r z w a m1 m2 m3 m2 m5]
  show ?thesis
    by (simp add: th a e x)
qed


section \<open>Properties of the main controller\<close>

lemma gesture_recognizer_cleanup_raises:
  "gesture_recognizer_cleanup raises = Some ''Cleanup failed''"
  by (simp add: gesture_recognizer_cleanup_def MotionDriver_attributes_def split: option.split)

lemma state_handle_emergency_shutdown:
  "state (handle_emergency_shutdown raises condition v now s) = Sys_SHUTDOWN"
  by (simp add: handle_emergency_shutdown_def controller_record_alert_def Let_def
      split: option.split)

lemma handle_emergency_shutdown_sets_state_only:
  "handle_emergency_shutdown raises condition v now s = s\<lparr>state := Sys_SHUTDOWN\<rparr>"
  by (simp add: handle_emergency_shutdown_def BatteryController_attributes_def Let_def
      split: option.split)

lemma shutdown_unfold:
  "shutdown raises now s =
     (False, handle_emergency_shutdown raises Cond_POWER 0.0 now (s\<lparr>state := Sys_SHUTDOWN\<rparr>))"
  by (simp add: shutdown_def gesture_recognizer_cleanup_raises Let_def)

text \<open>
  C8. \<open>shutdown\<close> returns \<open>False\<close> on the first call and on the second, whatever the
  hardware calls do: \<open>GestureRecognizer.cleanup\<close> always raises, since the motion driver
  has no \<open>cleanup\<close> method. The state is \<open>SHUTDOWN\<close> after each call.
\<close>

theorem shutdown_returns_false:
  "fst (shutdown raises1 now1 s) = False
   \<and> state (snd (shutdown raises1 now1 s)) = Sys_SHUTDOWN
   \<and> fst (shutdown raises2 now2 (snd (shutdown raises1 now1 s))) = False
   \<and> state (snd (shutdown raises2 now2 (snd (shutdown raises1 now1 s)))) = Sys_SHUTDOWN"
  by (simp add: shutdown_unfold state_handle_emergency_shutdown)


end
